theory Spec2Isabelle
  imports
    Complex_Main
    "HOL-Library.Multiset"
    "HOL-Library.Sublist"
    "HOL-Library.Char_ord"
    "HOL-Library.List_Lexorder"
    "HOL-Library.Product_Lexorder"
begin

section \<open>The MCPrism gateway prototype\<close>

text \<open>
  The development embeds the two programs of the repository: the gateway
  (\<^verbatim>\<open>apps/gateway/src/index.ts\<close>) and the script that fills its table
  (\<^verbatim>\<open>populate\<close>). Both open the same SQLite file and create the table
  \<^verbatim>\<open>tools\<close> if it is missing.
\<close>

subsection \<open>JavaScript values\<close>

text \<open>
  A number is \<^verbatim>\<open>NaN\<close>, one of the two infinities, or finite. A finite number
  is kept as the real it stands for, and the two zeros are one.
\<close>

datatype number = NaN | NegInfinity | Finite real | Infinity

text \<open>
  The operators on numbers that the program and its library apply to values
  that may be \<^verbatim>\<open>NaN\<close>: \<^verbatim>\<open>a + b\<close>, \<^verbatim>\<open>-a\<close>, \<^verbatim>\<open>a - b\<close>, \<^verbatim>\<open>a / b\<close>, and
  the tests \<^verbatim>\<open>a > 0\<close> and \<^verbatim>\<open>a <= b\<close>. On finite numbers they are the
  operators of the reals: the rounding of the result to a double is left out.
  For a difference that is exact in its sign: two finite doubles differ by a
  positive double exactly when the first is the larger.
\<close>

fun js_plus :: "number \<Rightarrow> number \<Rightarrow> number" where
  "js_plus NaN b = NaN"
| "js_plus a NaN = NaN"
| "js_plus Infinity NegInfinity = NaN"
| "js_plus NegInfinity Infinity = NaN"
| "js_plus Infinity b = Infinity"
| "js_plus a Infinity = Infinity"
| "js_plus NegInfinity b = NegInfinity"
| "js_plus a NegInfinity = NegInfinity"
| "js_plus (Finite x) (Finite y) = Finite (x + y)"

fun js_negate :: "number \<Rightarrow> number" where
  "js_negate NaN = NaN"
| "js_negate NegInfinity = Infinity"
| "js_negate (Finite x) = Finite (- x)"
| "js_negate Infinity = NegInfinity"

definition js_minus :: "number \<Rightarrow> number \<Rightarrow> number" where
  "js_minus a b = js_plus a (js_negate b)"

fun js_divide :: "number \<Rightarrow> number \<Rightarrow> number" where
  "js_divide NaN b = NaN"
| "js_divide a NaN = NaN"
| "js_divide (Finite x) (Finite y) =
     (if y \<noteq> 0 then Finite (x / y)
      else if x = 0 then NaN
      else if 0 < x then Infinity
      else NegInfinity)"
| "js_divide (Finite x) b = Finite 0"
| "js_divide Infinity (Finite y) = (if y < 0 then NegInfinity else Infinity)"
| "js_divide NegInfinity (Finite y) = (if y < 0 then Infinity else NegInfinity)"
| "js_divide a b = NaN"

fun js_positive :: "number \<Rightarrow> bool" where
  "js_positive Infinity = True"
| "js_positive (Finite x) = (0 < x)"
| "js_positive a = False"

fun js_le :: "number \<Rightarrow> number \<Rightarrow> bool" where
  "js_le NaN b = False"
| "js_le a NaN = False"
| "js_le NegInfinity b = True"
| "js_le a Infinity = True"
| "js_le (Finite x) (Finite y) = (x \<le> y)"
| "js_le a b = False"

text \<open>
  The values the handlers receive and return. An object is the list of its own
  properties in insertion order, as \<^verbatim>\<open>Object.keys\<close> enumerates them.
\<close>

datatype jsval =
    JUndefined
  | JNull
  | JBool bool
  | JNum number
  | JStr string
  | JArr "jsval list"
  | JObj "(string \<times> jsval) list"

text \<open>What a \<^verbatim>\<open>throw\<close> carries: the error's class and its message.\<close>

datatype js_error =
    TypeError string
  | SyntaxError string
  | Error string

fun message :: "js_error \<Rightarrow> string" where
  "message (TypeError m) = m"
| "message (SyntaxError m) = m"
| "message (Error m) = m"

text \<open>\<^verbatim>\<open>Object.keys(v)\<close> for an object; no other value occurs where it is used.\<close>

fun keys :: "jsval \<Rightarrow> string list" where
  "keys (JObj kvs) = map fst kvs"
| "keys _ = []"

text \<open>Property access \<^verbatim>\<open>v.k\<close> on an object.\<close>

fun get_property :: "string \<Rightarrow> jsval \<Rightarrow> jsval" where
  "get_property k (JObj kvs) = (case map_of kvs k of None \<Rightarrow> JUndefined | Some v \<Rightarrow> v)"
| "get_property k _ = JUndefined"

text \<open>The truth value of \<^verbatim>\<open>!!v\<close>.\<close>

fun truthy :: "jsval \<Rightarrow> bool" where
  "truthy JUndefined = False"
| "truthy JNull = False"
| "truthy (JBool b) = b"
| "truthy (JNum x) = (x \<noteq> NaN \<and> x \<noteq> Finite 0)"
| "truthy (JStr s) = (s \<noteq> [])"
| "truthy (JArr _) = True"
| "truthy (JObj _) = True"

subsection \<open>The table \<^verbatim>\<open>tools\<close>\<close>

text \<open>
  \<^verbatim>\<open>
  CREATE TABLE IF NOT EXISTS tools (
    id INTEGER PRIMARY KEY AUTOINCREMENT,
    name TEXT NOT NULL UNIQUE,
    description TEXT NOT NULL,
    server TEXT NOT NULL,
    category TEXT,
    input_schema TEXT NOT NULL,
    embedding BLOB
  );\<close>
  A column that may be \<^verbatim>\<open>NULL\<close> is an option. The blob of \<^verbatim>\<open>embedding\<close> is
  kept as the sequence of 32-bit floats it encodes (four bytes each, as
  \<^verbatim>\<open>populate\<close> writes it and \<^verbatim>\<open>searchTools\<close> reads it back), each float as
  the real it stands for. A blob whose length in bytes is not a multiple of
  four, or one that encodes a \<^verbatim>\<open>NaN\<close> or an infinity, has no such reading and
  is outside the model.
\<close>

record tool_row =
  tool_id :: nat
  name :: string
  description :: string
  server :: string
  category :: "string option"
  input_schema :: string
  embedding :: "real list option"

text \<open>
  The database file: the rows of \<^verbatim>\<open>tools\<close> in ascending \<^verbatim>\<open>id\<close>, which is the
  order of a scan of the table, and the counter SQLite keeps for the
  \<^verbatim>\<open>AUTOINCREMENT\<close> column.
\<close>

record database =
  tools :: "tool_row list"
  sqlite_sequence :: nat

definition empty_db :: database where
  "empty_db = \<lparr>tools = [], sqlite_sequence = 0\<rparr>"

text \<open>
  The next \<^verbatim>\<open>id\<close> of an \<^verbatim>\<open>AUTOINCREMENT\<close> column: one more than the largest
  id the table ever held.
\<close>

definition next_id :: "database \<Rightarrow> nat" where
  "next_id db = Suc (fold max (map tool_id (tools db)) (sqlite_sequence db))"

text \<open>
  \<^verbatim>\<open>INSERT OR REPLACE INTO tools (name, description, server, category,
  input_schema, embedding) VALUES (?, ?, ?, ?, ?, ?)\<close>.
  The statement gives no \<^verbatim>\<open>id\<close>, so the only constraint a new row can
  violate is \<^verbatim>\<open>UNIQUE\<close> on \<^verbatim>\<open>name\<close>; \<^verbatim>\<open>OR REPLACE\<close> deletes the rows
  that conflict and then inserts the new row under a fresh id, at the end of
  the table. The \<^verbatim>\<open>tool_id\<close> of the argument is not read.
\<close>

definition insert_or_replace :: "tool_row \<Rightarrow> database \<Rightarrow> database" where
  "insert_or_replace r db =
     \<lparr>tools = filter (\<lambda>x. name x \<noteq> name r) (tools db) @ [r\<lparr>tool_id := next_id db\<rparr>],
      sqlite_sequence = next_id db\<rparr>"

text \<open>\<^verbatim>\<open>SELECT ... FROM tools WHERE name = ?\<close> read with \<^verbatim>\<open>.get\<close>: the first row, if any.\<close>

definition select_by_name :: "string \<Rightarrow> database \<Rightarrow> tool_row option" where
  "select_by_name n db = find (\<lambda>r. name r = n) (tools db)"

subsection \<open>Filling the table\<close>

text \<open>
  An entry of \<^verbatim>\<open>SAMPLE_TOOLS\<close>. Every entry of the script gives all five
  fields, the category included.
\<close>

record sample_tool =
  tool_name :: string
  tool_description :: string
  tool_server :: string
  tool_category :: string
  inputSchema :: jsval

text \<open>
  One turn of the loop of \<^verbatim>\<open>populate\<close>. The embedding model and
  \<^verbatim>\<open>JSON.stringify\<close> belong to the platform and are parameters; the model may
  throw, and then the statement is not run.
\<close>

definition add_tool ::
  "(string \<Rightarrow> js_error + real list) \<Rightarrow> (jsval \<Rightarrow> string) \<Rightarrow> sample_tool \<Rightarrow> database
     \<Rightarrow> js_error + database" where
  "add_tool embedder JSON_stringify tool db =
     (case embedder (tool_name tool @ '' '' @ tool_description tool) of
        Inl e \<Rightarrow> Inl e
      | Inr output \<Rightarrow>
          Inr (insert_or_replace
                 \<lparr>tool_id = 0,
                  name = tool_name tool,
                  description = tool_description tool,
                  server = tool_server tool,
                  category = Some (tool_category tool),
                  input_schema = JSON_stringify (inputSchema tool),
                  embedding = Some output\<rparr> db))"

text \<open>
  The loop: it stops at the first throw. The rows written before it stay in
  the file, so the database is returned in both cases.
\<close>

fun populate ::
  "(string \<Rightarrow> js_error + real list) \<Rightarrow> (jsval \<Rightarrow> string) \<Rightarrow> sample_tool list \<Rightarrow> database
     \<Rightarrow> database \<times> js_error option" where
  "populate embedder JSON_stringify [] db = (db, None)"
| "populate embedder JSON_stringify (tool # rest) db =
     (case add_tool embedder JSON_stringify tool db of
        Inl e \<Rightarrow> (db, Some e)
      | Inr db' \<Rightarrow> populate embedder JSON_stringify rest db')"

subsection \<open>Searching\<close>

text \<open>
  \<^verbatim>\<open>dot\<close>, \<^verbatim>\<open>magnitude\<close> and \<^verbatim>\<open>cos_sim\<close> are functions of the library
  \<^verbatim>\<open>@xenova/transformers\<close>:
  \<^verbatim>\<open>
  function dot(arr1, arr2) {
    let result = 0;
    for (let i = 0; i < arr1.length; ++i) result += arr1[i] * arr2[i];
    return result;
  }
  function magnitude(arr) {
    return Math.sqrt(arr.reduce((acc, val) => acc + val * val, 0));
  }
  function cos_sim(arr1, arr2) {
    return dot(arr1, arr2) / (magnitude(arr1) * magnitude(arr2));
  }\<close>
  The loop of \<^verbatim>\<open>dot\<close> runs over the indices of its first argument. Past the
  end of a shorter second argument it reads \<^verbatim>\<open>undefined\<close>, the product is
  \<^verbatim>\<open>NaN\<close>, and so is the sum from then on. A vector of norm 0, the empty
  one among them, makes the quotient \<^verbatim>\<open>0 / 0\<close>, which is \<^verbatim>\<open>NaN\<close>. None of
  the three throws.

  The sums, products and the root of finite numbers are those of the reals.
  The library rounds each of them to a double; the two agree wherever every
  intermediate value is a double, as in the concrete runs of this theory.
  \<^verbatim>\<open>searchTools\<close> below takes the similarity function as a parameter, so
  that what is proved of it holds for every function from two vectors to a
  number, the library's rounding one among them; \<open>cos_sim\<close> is what the
  parameter is in the concrete runs.
\<close>

fun dot_loop :: "number \<Rightarrow> real list \<Rightarrow> real list \<Rightarrow> number" where
  "dot_loop result [] arr2 = result"
| "dot_loop result (x # arr1) [] = dot_loop (js_plus result NaN) arr1 []"
| "dot_loop result (x # arr1) (y # arr2) =
     dot_loop (js_plus result (Finite (x * y))) arr1 arr2"

definition dot :: "real list \<Rightarrow> real list \<Rightarrow> number" where
  "dot arr1 arr2 = dot_loop (Finite 0) arr1 arr2"

definition magnitude :: "real list \<Rightarrow> real" where
  "magnitude arr = sqrt (fold (\<lambda>val acc. acc + val * val) arr 0)"

definition cos_sim :: "real list \<Rightarrow> real list \<Rightarrow> number" where
  "cos_sim arr1 arr2 = js_divide (dot arr1 arr2) (Finite (magnitude arr1 * magnitude arr2))"

text \<open>A column of type \<^verbatim>\<open>TEXT\<close> as the driver hands it over.\<close>

fun text_column :: "string option \<Rightarrow> jsval" where
  "text_column None = JNull"
| "text_column (Some s) = JStr s"

text \<open>
  The message of the \<^verbatim>\<open>TypeError\<close> that \<^verbatim>\<open>Buffer.from(null)\<close> throws; the
  wording is the runtime's.
\<close>

definition buffer_from_null :: string where
  "buffer_from_null = ''The first argument must be of type string or an instance of Buffer, ArrayBuffer, or Array or an Array-like Object. Received null''"

text \<open>
  The callback of \<^verbatim>\<open>tools.map\<close> in \<^verbatim>\<open>searchTools\<close>. A row whose
  \<^verbatim>\<open>embedding\<close> is \<^verbatim>\<open>NULL\<close> is not a \<^verbatim>\<open>Buffer\<close>, and \<^verbatim>\<open>Buffer.from\<close>
  throws on it. Nothing in the callback compares the length of the stored
  vector with the length of the query.
\<close>

definition tool_result ::
  "(real list \<Rightarrow> real list \<Rightarrow> number) \<Rightarrow> real list \<Rightarrow> tool_row \<Rightarrow> js_error + jsval" where
  "tool_result similarity_fn queryEmbedding tool =
     (case embedding tool of
        None \<Rightarrow> Inl (TypeError buffer_from_null)
      | Some toolEmbedding \<Rightarrow>
          Inr (JObj
            [(''name'', JStr (name tool)),
             (''description'', JStr (description tool)),
             (''server'', JStr (server tool)),
             (''category'', text_column (category tool)),
             (''similarity'', JNum (similarity_fn queryEmbedding toolEmbedding))]))"

text \<open>\<^verbatim>\<open>Array.prototype.map\<close> with a callback that may throw: the first throw ends it.\<close>

fun map_throw :: "('a \<Rightarrow> js_error + 'b) \<Rightarrow> 'a list \<Rightarrow> js_error + 'b list" where
  "map_throw f [] = Inr []"
| "map_throw f (x # xs) =
     (case f x of
        Inl e \<Rightarrow> Inl e
      | Inr y \<Rightarrow> (case map_throw f xs of Inl e \<Rightarrow> Inl e | Inr ys \<Rightarrow> Inr (y # ys)))"

text \<open>
  \<^verbatim>\<open>r.similarity\<close> as the operand of a subtraction. Every object
  \<^verbatim>\<open>searchTools\<close> sorts has the property and it is a number; anything else
  would be \<^verbatim>\<open>NaN\<close> there.
\<close>

definition similarity :: "jsval \<Rightarrow> number" where
  "similarity r = (case get_property ''similarity'' r of JNum x \<Rightarrow> x | _ \<Rightarrow> NaN)"

text \<open>
  The comparator \<^verbatim>\<open>(a, b) => b.similarity - a.similarity\<close>. It is
  \<^verbatim>\<open>NaN\<close> as soon as one of the two similarities is.
\<close>

definition compare_similarity :: "jsval \<Rightarrow> jsval \<Rightarrow> number" where
  "compare_similarity a b = js_minus (similarity b) (similarity a)"

text \<open>
  \<^verbatim>\<open>Array.prototype.sort\<close> with a comparator. The sort reads a \<^verbatim>\<open>NaN\<close> of
  the comparator as 0 and is stable: of two elements the comparator does not
  separate, the one that stood first stays first. For a comparator that is a
  consistent order every stable sort gives the same list; the insertion sort
  below is one. The comparator of \<^verbatim>\<open>searchTools\<close> is a consistent order as
  long as no similarity is \<^verbatim>\<open>NaN\<close>. Where one is, the comparator separates
  it from no other element, it is not an order any more, and the language
  leaves the order of the result to the implementation: the result is still a
  rearrangement of the array, but need not be in descending order. Below,
  nothing is stated about the order in that case.
\<close>

definition SortCompare :: "('a \<Rightarrow> 'a \<Rightarrow> number) \<Rightarrow> 'a \<Rightarrow> 'a \<Rightarrow> number" where
  "SortCompare compareFn x y = (let v = compareFn x y in if v = NaN then Finite 0 else v)"

fun sort_insert :: "('a \<Rightarrow> 'a \<Rightarrow> number) \<Rightarrow> 'a \<Rightarrow> 'a list \<Rightarrow> 'a list" where
  "sort_insert compareFn x [] = [x]"
| "sort_insert compareFn x (y # ys) =
     (if js_positive (SortCompare compareFn x y) then y # sort_insert compareFn x ys
      else x # y # ys)"

definition js_sort :: "('a \<Rightarrow> 'a \<Rightarrow> number) \<Rightarrow> 'a list \<Rightarrow> 'a list" where
  "js_sort compareFn xs = foldr (sort_insert compareFn) xs []"

text \<open>
  \<^verbatim>\<open>Array.prototype.slice(start, end)\<close> on integers: a negative index counts
  from the end of the array.
\<close>

definition slice :: "int \<Rightarrow> int \<Rightarrow> 'a list \<Rightarrow> 'a list" where
  "slice start end xs =
     (let len = int (length xs);
          k = (if start < 0 then max (len + start) 0 else min start len);
          final = (if end < 0 then max (len + end) 0 else min end len)
      in take (nat (max (final - k) 0)) (drop (nat k) xs))"

text \<open>
  \<^verbatim>\<open>searchTools(queryEmbedding, limit = 5)\<close>. The statement has no
  \<^verbatim>\<open>ORDER BY\<close>: the rows come in the order of the table.
\<close>

definition searchTools ::
  "(real list \<Rightarrow> real list \<Rightarrow> number) \<Rightarrow> database \<Rightarrow> real list \<Rightarrow> int option
     \<Rightarrow> js_error + jsval list" where
  "searchTools similarity_fn db queryEmbedding limit_arg =
     (let limit = (case limit_arg of None \<Rightarrow> 5 | Some l \<Rightarrow> l) in
      case map_throw (tool_result similarity_fn queryEmbedding) (tools db) of
        Inl e \<Rightarrow> Inl e
      | Inr results \<Rightarrow> Inr (slice 0 limit (js_sort compare_similarity results)))"

subsection \<open>The routes\<close>

text \<open>
  \<^verbatim>\<open>GET /tools\<close>. The handler takes no argument: whatever the request
  carries in its query string, here \<open>request_query\<close>, is not read.
  \<^verbatim>\<open>ORDER BY server, name\<close> compares the texts byte by byte.
\<close>

definition tool_metadata :: "tool_row \<Rightarrow> jsval" where
  "tool_metadata r =
     JObj [(''name'', JStr (name r)),
           (''description'', JStr (description r)),
           (''server'', JStr (server r)),
           (''category'', text_column (category r))]"

definition GET_tools :: "(string \<times> string) list \<Rightarrow> database \<Rightarrow> jsval" where
  "GET_tools request_query db =
     JObj [(''tools'',
            JArr (map tool_metadata (sort_key (\<lambda>r. (server r, name r)) (tools db))))]"

text \<open>
  \<^verbatim>\<open>GET /tool/:name\<close>. \<^verbatim>\<open>JSON.parse\<close> is a parameter; when it throws, so
  does the handler.
\<close>

definition GET_tool ::
  "(string \<Rightarrow> js_error + jsval) \<Rightarrow> database \<Rightarrow> string \<Rightarrow> js_error + jsval" where
  "GET_tool JSON_parse db params_name =
     (case select_by_name params_name db of
        None \<Rightarrow> Inr (JObj [(''error'', JStr ''Tool not found'')])
      | Some tool \<Rightarrow>
          (case JSON_parse (input_schema tool) of
             Inl e \<Rightarrow> Inl e
           | Inr parsed \<Rightarrow>
               Inr (JObj
                 [(''name'', JStr (name tool)),
                  (''description'', JStr (description tool)),
                  (''server'', JStr (server tool)),
                  (''category'', text_column (category tool)),
                  (''input_schema'', JStr (input_schema tool)),
                  (''inputSchema'', parsed)])))"

text \<open>
  The body of \<^verbatim>\<open>POST /search\<close>, \<^verbatim>\<open>{query: string, limit?: int}\<close>; a property
  the body does not have is \<open>None\<close>, the \<^verbatim>\<open>undefined\<close> of the handler.
\<close>

record search_body =
  query :: "string option"
  limit :: "int option"

text \<open>
  \<^verbatim>\<open>POST /search\<close>. \<^verbatim>\<open>generateEmbedding\<close> runs the embedding model and is a
  parameter; whatever it or \<^verbatim>\<open>searchTools\<close> throws is caught and answered
  with its message.
\<close>

definition POST_search ::
  "(string \<Rightarrow> js_error + real list) \<Rightarrow> (real list \<Rightarrow> real list \<Rightarrow> number) \<Rightarrow> database
     \<Rightarrow> search_body \<Rightarrow> jsval" where
  "POST_search generateEmbedding similarity_fn db body =
     (let lmt = (case limit body of None \<Rightarrow> 5 | Some l \<Rightarrow> l) in
      case query body of
        None \<Rightarrow> JObj [(''error'', JStr ''Query required'')]
      | Some q \<Rightarrow>
          if \<not> truthy (JStr q) then JObj [(''error'', JStr ''Query required'')]
          else
            (case generateEmbedding q of
               Inl e \<Rightarrow> JObj [(''error'', JStr (message e))]
             | Inr queryEmbedding \<Rightarrow>
                 (case searchTools similarity_fn db queryEmbedding (Some lmt) of
                    Inl e \<Rightarrow> JObj [(''error'', JStr (message e))]
                  | Inr results \<Rightarrow> JObj [(''tools'', JArr results)])))"

text \<open>
  The body of \<^verbatim>\<open>POST /execute\<close> after \<^verbatim>\<open>const { tool, args } = body\<close>: a
  property the body does not have is \<^verbatim>\<open>undefined\<close>.
\<close>

record execute_body =
  tool :: jsval
  args :: jsval

text \<open>
  \<^verbatim>\<open>POST /execute\<close>. The handler reads neither the table nor anything else
  outside its body; \<open>db\<close> is the state it runs in.
\<close>

definition POST_execute :: "database \<Rightarrow> execute_body \<Rightarrow> jsval" where
  "POST_execute db body =
     (if \<not> truthy (tool body) \<or> \<not> truthy (args body) then
        JObj [(''error'', JStr ''Tool and args required'')]
      else
        JObj [(''success'', JBool True),
              (''tool'', tool body),
              (''args'', args body),
              (''message'', JStr ''POC: Tool execution would happen here. In production, this would forward to the actual MCP server.''),
              (''note'', JStr ''To implement: Forward request to MCP server based on tool.server field'')])"

subsection \<open>Loading the embedding model\<close>

text \<open>
  \<^verbatim>\<open>
  async function getEmbedder() {
    if (!embedder) {
      embedder = await pipeline('feature-extraction', 'Xenova/all-MiniLM-L6-v2');
    }
    return embedder;
  }\<close>
  An \<^verbatim>\<open>async\<close> function runs without interruption up to its next
  \<^verbatim>\<open>await\<close> and is resumed, again without interruption, when the promise it
  waits for is settled; between the two, other callers run. So a call of
  \<^verbatim>\<open>getEmbedder\<close> is one or two steps: the test of the global variable, with
  the call of \<^verbatim>\<open>pipeline\<close> when the variable is unset, and the assignment
  once the model is loaded.

  The state: the global variable \<^verbatim>\<open>embedder\<close>, the number of calls of
  \<^verbatim>\<open>pipeline\<close> made so far, the callers waiting with the number of the load
  each one started, what each finished call returned, and the callers whose
  call threw. The model that the \<open>k\<close>-th call of \<^verbatim>\<open>pipeline\<close> loads is the
  instance \<open>k\<close>.

  The events: a caller calls \<^verbatim>\<open>getEmbedder\<close>; the load a caller waits for is
  done; the load a caller waits for has failed.
\<close>

datatype event = Call nat | Settle nat | Reject nat

record loader =
  embedder :: "nat option"
  pipelines :: nat
  awaiting :: "(nat \<times> nat) list"
  returned :: "(nat \<times> nat) list"
  thrown :: "nat list"

definition initial_loader :: loader where
  "initial_loader =
     \<lparr>embedder = None, pipelines = 0, awaiting = [], returned = [], thrown = []\<rparr>"

text \<open>The caller \<open>c\<close> calls \<^verbatim>\<open>getEmbedder\<close>: up to the \<^verbatim>\<open>await\<close>, or to the end.\<close>

definition getEmbedder_call :: "nat \<Rightarrow> loader \<Rightarrow> loader" where
  "getEmbedder_call c s =
     (case embedder s of
        None \<Rightarrow>
          s\<lparr>pipelines := Suc (pipelines s), awaiting := awaiting s @ [(c, Suc (pipelines s))]\<rparr>
      | Some m \<Rightarrow> s\<lparr>returned := returned s @ [(c, m)]\<rparr>)"

text \<open>
  The load that the caller \<open>c\<close> waits for is done: the assignment and the
  return. A caller that waits for nothing has nothing to resume.
\<close>

definition getEmbedder_resume :: "nat \<Rightarrow> loader \<Rightarrow> loader" where
  "getEmbedder_resume c s =
     (case map_of (awaiting s) c of
        None \<Rightarrow> s
      | Some k \<Rightarrow>
          s\<lparr>embedder := Some k,
            awaiting := filter (\<lambda>p. fst p \<noteq> c) (awaiting s),
            returned := returned s @ [(c, k)]\<rparr>)"

text \<open>
  The load that the caller \<open>c\<close> waits for has failed: the \<^verbatim>\<open>await\<close> throws,
  the variable stays as it is, and the call of \<^verbatim>\<open>getEmbedder\<close> throws.
\<close>

definition getEmbedder_throw :: "nat \<Rightarrow> loader \<Rightarrow> loader" where
  "getEmbedder_throw c s =
     (case map_of (awaiting s) c of
        None \<Rightarrow> s
      | Some k \<Rightarrow>
          s\<lparr>awaiting := filter (\<lambda>p. fst p \<noteq> c) (awaiting s),
            thrown := thrown s @ [c]\<rparr>)"

fun step :: "event \<Rightarrow> loader \<Rightarrow> loader" where
  "step (Call c) s = getEmbedder_call c s"
| "step (Settle c) s = getEmbedder_resume c s"
| "step (Reject c) s = getEmbedder_throw c s"

definition run :: "event list \<Rightarrow> loader \<Rightarrow> loader" where
  "run events s = fold step events s"

subsection \<open>Concrete tables\<close>

text \<open>
  Rows for the concrete runs below, with short embeddings and the schema text
  of an empty object.
\<close>

definition read_file :: tool_row where
  "read_file =
     \<lparr>tool_id = 0, name = ''read_file'',
      description = ''Read contents from a file on the local filesystem'',
      server = ''filesystem'', category = Some ''read'',
      input_schema = ''{}'', embedding = Some [1, 0]\<rparr>"

definition write_file :: tool_row where
  "write_file =
     \<lparr>tool_id = 0, name = ''write_file'',
      description = ''Write content to a file on the local filesystem'',
      server = ''filesystem'', category = Some ''write'',
      input_schema = ''{}'', embedding = Some [1, 0]\<rparr>"

definition list_issues :: tool_row where
  "list_issues =
     \<lparr>tool_id = 0, name = ''list_issues'',
      description = ''List issues in a GitHub repository'',
      server = ''github'', category = Some ''read'',
      input_schema = ''{}'', embedding = Some [0, 1, 0]\<rparr>"

text \<open>A row whose embedding has one component only.\<close>

definition legacy_tool :: tool_row where
  "legacy_tool =
     \<lparr>tool_id = 0, name = ''legacy_tool'',
      description = ''A tool stored with an older embedding model'',
      server = ''filesystem'', category = None,
      input_schema = ''{}'', embedding = Some [1]\<rparr>"

text \<open>Tables that \<^verbatim>\<open>INSERT OR REPLACE\<close> builds from the empty one.\<close>

definition files_db :: database where
  "files_db = fold insert_or_replace [write_file, read_file] empty_db"

definition mixed_db :: database where
  "mixed_db = fold insert_or_replace [read_file, list_issues] empty_db"

definition issues_db :: database where
  "issues_db = fold insert_or_replace [list_issues] empty_db"

definition legacy_db :: database where
  "legacy_db = fold insert_or_replace [legacy_tool, read_file] empty_db"

definition ranked_db :: database where
  "ranked_db = fold insert_or_replace [list_issues, write_file, read_file] empty_db"

text \<open>
  Stand-ins for the platform in the concrete runs: an embedding model that
  sends every text to the same unit vector, and \<^verbatim>\<open>JSON.stringify\<close> and
  \<^verbatim>\<open>JSON.parse\<close> on the empty object and the literals.
\<close>

definition constant_embedding :: "string \<Rightarrow> js_error + real list" where
  "constant_embedding text = Inr [1, 0]"

fun stringify_literal :: "jsval \<Rightarrow> string" where
  "stringify_literal (JObj []) = ''{}''"
| "stringify_literal (JArr []) = ''[]''"
| "stringify_literal (JBool True) = ''true''"
| "stringify_literal (JBool False) = ''false''"
| "stringify_literal _ = ''null''"

definition parse_literal :: "string \<Rightarrow> js_error + jsval" where
  "parse_literal s =
     (if s = ''{}'' then Inr (JObj [])
      else if s = ''[]'' then Inr (JArr [])
      else if s = ''true'' then Inr (JBool True)
      else if s = ''false'' then Inr (JBool False)
      else if s = ''null'' then Inr JNull
      else Inl (SyntaxError ''Unexpected token''))"

definition take_screenshot :: sample_tool where
  "take_screenshot =
     \<lparr>tool_name = ''take_screenshot'',
      tool_description = ''Take a screenshot of the current browser page or specific element'',
      tool_server = ''chrome-devtools'',
      tool_category = ''browser'',
      inputSchema = JObj []\<rparr>"

subsection \<open>The descending order of numbers\<close>

text \<open>
  A key for the proofs: it puts the numbers other than \<^verbatim>\<open>NaN\<close> in
  descending order, \<^verbatim>\<open>Infinity\<close> first.
\<close>

fun descending_key :: "number \<Rightarrow> nat \<times> real" where
  "descending_key Infinity = (0, 0)"
| "descending_key (Finite x) = (1, - x)"
| "descending_key NegInfinity = (2, 0)"
| "descending_key NaN = (3, 0)"

section \<open>Properties\<close>

subsection \<open>Uniqueness of names\<close>

lemma names_insert_or_replace:
  "map name (tools (insert_or_replace r db)) =
     filter (\<lambda>n. n \<noteq> name r) (map name (tools db)) @ [name r]"
  by (simp add: insert_or_replace_def filter_map comp_def)

lemma distinct_insert_or_replace:
  "distinct (map name (tools db)) \<Longrightarrow> distinct (map name (tools (insert_or_replace r db)))"
  by (simp add: names_insert_or_replace)

lemma distinct_fold_insert_or_replace:
  "distinct (map name (tools db)) \<Longrightarrow> distinct (map name (tools (fold insert_or_replace rs db)))"
  by (induction rs arbitrary: db) (simp_all add: distinct_insert_or_replace)

lemma filter_name_insert_or_replace:
  "filter (\<lambda>x. name x = name r) (tools (insert_or_replace r db)) = [r\<lparr>tool_id := next_id db\<rparr>]"
proof -
  have "filter (\<lambda>x. name x = name r) (filter (\<lambda>x. name x \<noteq> name r) (tools db)) = []"
    by (induction "tools db") (auto simp: filter_empty_conv)
  then show ?thesis
    by (simp add: insert_or_replace_def)
qed

text \<open>
  C8. Whatever rows a sequence of \<^verbatim>\<open>INSERT OR REPLACE\<close> statements wrote into
  the empty table before, after one more such statement for the row \<open>r\<close> the
  table holds exactly one row named \<open>name r\<close>, and that row carries the values
  of \<open>r\<close> (under the id the statement assigned); the names of the table are
  pairwise distinct, so no name is ever held twice.
\<close>

theorem upsert_unique_name:
  "filter (\<lambda>x. name x = name r)
       (tools (insert_or_replace r (fold insert_or_replace rs empty_db)))
     = [r\<lparr>tool_id := next_id (fold insert_or_replace rs empty_db)\<rparr>]
   \<and> distinct (map name (tools (insert_or_replace r (fold insert_or_replace rs empty_db))))
   \<and> distinct (map name (tools (fold insert_or_replace rs empty_db)))"
proof -
  have d: "distinct (map name (tools (fold insert_or_replace rs empty_db)))"
    by (rule distinct_fold_insert_or_replace) (simp add: empty_db_def)
  show ?thesis
    using d by (simp add: filter_name_insert_or_replace distinct_insert_or_replace)
qed

subsection \<open>Sorting, slicing and mapping\<close>

lemma mset_sort_insert: "mset (sort_insert c x ys) = add_mset x (mset ys)"
  by (induction ys) simp_all

lemma mset_js_sort: "mset (js_sort c xs) = mset xs"
  by (induction xs) (simp_all add: js_sort_def mset_sort_insert)

lemma length_js_sort: "length (js_sort c xs) = length xs"
  using mset_js_sort [where c = c and xs = xs] by (rule mset_eq_length)

lemma descending_key_eq: "descending_key a = descending_key b \<longleftrightarrow> a = b"
  by (cases a; cases b) simp_all

lemma compare_positive_key:
  assumes "similarity x \<noteq> NaN" and "similarity y \<noteq> NaN"
  shows "js_positive (SortCompare compare_similarity x y) \<longleftrightarrow>
           \<not> descending_key (similarity x) \<le> descending_key (similarity y)"
  using assms
  by (cases "similarity x"; cases "similarity y")
    (auto simp: SortCompare_def compare_similarity_def js_minus_def)

lemma key_le_js_le:
  assumes "a \<noteq> NaN" and "b \<noteq> NaN" and "descending_key a \<le> descending_key b"
  shows "js_le b a"
  using assms by (cases a; cases b) simp_all

lemma sort_insert_insort_key:
  assumes "similarity x \<noteq> NaN" and "\<forall>y\<in>set ys. similarity y \<noteq> NaN"
  shows "sort_insert compare_similarity x ys =
           insort_key (\<lambda>r. descending_key (similarity r)) x ys"
  using assms by (induction ys) (simp_all add: compare_positive_key)

lemma js_sort_sort_key:
  assumes "\<forall>y\<in>set xs. similarity y \<noteq> NaN"
  shows "js_sort compare_similarity xs = sort_key (\<lambda>r. descending_key (similarity r)) xs"
  using assms
proof (induction xs)
  case Nil
  then show ?case by (simp add: js_sort_def)
next
  case (Cons x xs)
  then have ih: "js_sort compare_similarity xs =
                   sort_key (\<lambda>r. descending_key (similarity r)) xs"
    by simp
  have "js_sort compare_similarity (x # xs) =
          sort_insert compare_similarity x (js_sort compare_similarity xs)"
    by (simp add: js_sort_def)
  also have "\<dots> = insort_key (\<lambda>r. descending_key (similarity r)) x
                     (sort_key (\<lambda>r. descending_key (similarity r)) xs)"
    unfolding ih using Cons.prems by (intro sort_insert_insort_key) simp_all
  finally show ?case
    by simp
qed

lemma sorted_js_sort:
  assumes "\<forall>y\<in>set xs. similarity y \<noteq> NaN"
  shows "sorted_wrt (\<lambda>a b. js_le (similarity b) (similarity a)) (js_sort compare_similarity xs)"
proof -
  let ?key = "\<lambda>r. descending_key (similarity r)"
  have "sorted (map ?key (sort_key ?key xs))"
    by simp
  then have "sorted_wrt (\<lambda>a b. ?key a \<le> ?key b) (sort_key ?key xs)"
    by (simp add: sorted_map)
  then have "sorted_wrt (\<lambda>a b. js_le (similarity b) (similarity a)) (sort_key ?key xs)"
  proof (rule sorted_wrt_mono_rel [rotated])
    fix a b
    assume "a \<in> set (sort_key ?key xs)" and "b \<in> set (sort_key ?key xs)"
      and "?key a \<le> ?key b"
    with assms show "js_le (similarity b) (similarity a)"
      by (auto intro: key_le_js_le)
  qed
  then show ?thesis
    by (simp add: js_sort_sort_key [OF assms])
qed

lemma stable_js_sort:
  assumes "\<forall>y\<in>set xs. similarity y \<noteq> NaN"
  shows "filter (\<lambda>r. similarity r = s) (js_sort compare_similarity xs) =
           filter (\<lambda>r. similarity r = s) xs"
  using sort_key_stable [of "\<lambda>r. descending_key (similarity r)" "descending_key s" xs]
  by (simp add: js_sort_sort_key [OF assms] descending_key_eq)

lemma slice_from_start:
  "slice 0 e xs =
     take (nat (if e < 0 then max (int (length xs) + e) 0 else min e (int (length xs)))) xs"
  by (simp add: slice_def Let_def)

lemma length_slice_positive: "0 < n \<Longrightarrow> length (slice 0 n xs) \<le> nat n"
  by (simp add: slice_from_start)

lemma slice_is_take: "\<exists>k. slice 0 e xs = take k xs"
  unfolding slice_from_start by (rule exI) (rule refl)

lemma set_slice: "set (slice 0 e xs) \<subseteq> set xs"
  using slice_is_take [of e xs] by (auto dest: in_set_takeD)

lemma prefix_filter_take: "prefix (filter P (take k xs)) (filter P xs)"
proof -
  have "filter P xs = filter P (take k xs) @ filter P (drop k xs)"
    by (metis append_take_drop_id filter_append)
  then show ?thesis
    by (simp add: prefixI)
qed

lemma map_throw_Inr:
  "map_throw f xs = Inr ys \<Longrightarrow> list_all2 (\<lambda>x y. f x = Inr y) xs ys"
  by (induction xs arbitrary: ys) (auto split: sum.splits)

lemma map_throw_succeeds:
  "(\<exists>ys. map_throw f xs = Inr ys) \<longleftrightarrow> (\<forall>x\<in>set xs. \<exists>y. f x = Inr y)"
  by (induction xs) (auto split: sum.splits)

lemma length_map_throw: "map_throw f xs = Inr ys \<Longrightarrow> length ys = length xs"
  by (drule map_throw_Inr) (rule list_all2_lengthD [symmetric])

subsection \<open>The entries of a search\<close>

lemma tool_result_succeeds:
  "(\<exists>y. tool_result cs q r = Inr y) \<longleftrightarrow> embedding r \<noteq> None"
  by (auto simp: tool_result_def split: option.splits)

lemma tool_result_keys:
  "tool_result cs q r = Inr obj \<Longrightarrow>
     keys obj = [''name'', ''description'', ''server'', ''category'', ''similarity'']"
  by (auto simp: tool_result_def split: option.splits)

lemma tool_result_name:
  "tool_result cs q r = Inr obj \<Longrightarrow> get_property ''name'' obj = JStr (name r)"
  by (auto simp: tool_result_def split: option.splits)

lemma map_throw_tool_result_total:
  "list_all (\<lambda>r. embedding r \<noteq> None) rows \<Longrightarrow>
     \<exists>results. map_throw (tool_result cs q) rows = Inr results"
  using map_throw_succeeds [of "tool_result cs q" rows] tool_result_succeeds [of cs q]
  by (simp add: list_all_iff)

lemma map_throw_rows:
  "map_throw (tool_result cs q) rows = Inr results \<Longrightarrow>
     list_all2 (\<lambda>r obj. get_property ''name'' obj = JStr (name r)
                  \<and> map_option (cs q) (embedding r) = Some (similarity obj)) rows results"
  by (drule map_throw_Inr, erule list_all2_mono)
    (auto simp: tool_result_def similarity_def split: option.splits)

lemma map_throw_names:
  "map_throw (tool_result cs q) rows = Inr results \<Longrightarrow>
     map (get_property ''name'') results = map (\<lambda>r. JStr (name r)) rows"
  by (drule map_throw_Inr, induction rule: list_all2_induct) (simp_all add: tool_result_name)

lemma map_throw_keys:
  assumes "map_throw (tool_result cs q) rows = Inr results" and "obj \<in> set results"
  shows "keys obj = [''name'', ''description'', ''server'', ''category'', ''similarity'']"
proof -
  from assms(1) have "list_all2 (\<lambda>r y. tool_result cs q r = Inr y) rows results"
    by (rule map_throw_Inr)
  with assms(2) obtain r where "tool_result cs q r = Inr obj"
    by (auto simp: in_set_conv_nth list_all2_conv_all_nth)
  then show ?thesis
    by (rule tool_result_keys)
qed

subsection \<open>The concrete tables\<close>

lemma issues_db_rows: "tools issues_db = [list_issues\<lparr>tool_id := 1\<rparr>]"
  by (simp add: issues_db_def insert_or_replace_def empty_db_def next_id_def)

lemma files_db_rows:
  "tools files_db = [write_file\<lparr>tool_id := 1\<rparr>, read_file\<lparr>tool_id := 2\<rparr>]"
  by (simp add: files_db_def insert_or_replace_def empty_db_def next_id_def
      write_file_def read_file_def)

lemma legacy_db_rows:
  "tools legacy_db = [legacy_tool\<lparr>tool_id := 1\<rparr>, read_file\<lparr>tool_id := 2\<rparr>]"
  by (simp add: legacy_db_def insert_or_replace_def empty_db_def next_id_def
      legacy_tool_def read_file_def)

lemma ranked_db_rows:
  "tools ranked_db =
     [list_issues\<lparr>tool_id := 1\<rparr>, write_file\<lparr>tool_id := 2\<rparr>, read_file\<lparr>tool_id := 3\<rparr>]"
  by (simp add: ranked_db_def insert_or_replace_def empty_db_def next_id_def
      list_issues_def write_file_def read_file_def)

lemma mixed_db_rows:
  "tools mixed_db = [read_file\<lparr>tool_id := 1\<rparr>, list_issues\<lparr>tool_id := 2\<rparr>]"
  by (simp add: mixed_db_def insert_or_replace_def empty_db_def next_id_def
      list_issues_def read_file_def)

lemmas run_search =
  searchTools_def tool_result_def cos_sim_def dot_def magnitude_def js_sort_def
  SortCompare_def compare_similarity_def js_minus_def similarity_def slice_def

subsection \<open>Similarities that are not numbers\<close>

text \<open>
  A stored vector that is shorter than the query, or has the norm 0, or is
  empty, has the similarity \<^verbatim>\<open>NaN\<close>; a longer one has a number, computed
  from its first components and its whole norm.
\<close>

lemma cos_sim_shorter: "cos_sim [1, 0, 0] [1, 0] = NaN"
  by (simp add: cos_sim_def dot_def)

lemma cos_sim_norm_zero: "cos_sim [1, 0] [0, 0] = NaN"
  by (simp add: cos_sim_def dot_def magnitude_def)

lemma cos_sim_empty: "cos_sim [1, 0] [] = NaN"
  by (simp add: cos_sim_def dot_def)

lemma cos_sim_longer: "cos_sim [1, 0] [0, 1, 0] = Finite 0"
  by (simp add: cos_sim_def dot_def magnitude_def)

text \<open>
  With such a row the result need not be in descending order. In \<open>legacy_db\<close>
  the first row has an embedding shorter than the query. The comparator is
  \<^verbatim>\<open>NaN\<close> on the two entries, which the sort reads as 0, so the entries stay
  as they are: a search with the limit 1 returns the entry of similarity
  \<^verbatim>\<open>NaN\<close> and leaves out the entry of similarity 1.
\<close>

lemma search_keeps_NaN_first:
  "searchTools cos_sim legacy_db [1, 0] (Some 1) =
     Inr [JObj [(''name'', JStr ''legacy_tool''),
                (''description'', JStr ''A tool stored with an older embedding model''),
                (''server'', JStr ''filesystem''),
                (''category'', JNull),
                (''similarity'', JNum NaN)]]
   \<and> map (\<lambda>r. (name r, map_option (cos_sim [1, 0]) (embedding r))) (tools legacy_db) =
       [(''legacy_tool'', Some NaN), (''read_file'', Some (Finite 1))]"
  by (simp add: legacy_db_rows run_search legacy_tool_def read_file_def)

lemma results_not_NaN:
  assumes "map_throw (tool_result cs q) rows = Inr results"
    and "list_all (\<lambda>r. case embedding r of None \<Rightarrow> False | Some e \<Rightarrow> cs q e \<noteq> NaN) rows"
  shows "\<forall>obj\<in>set results. similarity obj \<noteq> NaN"
proof -
  have "list_all2 (\<lambda>r obj. get_property ''name'' obj = JStr (name r)
                  \<and> map_option (cs q) (embedding r) = Some (similarity obj)) rows results"
    using assms(1) by (rule map_throw_rows)
  then have "list_all (\<lambda>r. case embedding r of None \<Rightarrow> False | Some e \<Rightarrow> cs q e \<noteq> NaN) rows
               \<Longrightarrow> list_all (\<lambda>obj. similarity obj \<noteq> NaN) results"
    by (induction rule: list_all2_induct) (auto split: option.splits)
  with assms(2) show ?thesis
    by (simp add: list_all_iff)
qed

subsection \<open>The order of a search\<close>

text \<open>
  C2, as the specification states it, fails. In the table \<open>files_db\<close> the row
  \<^verbatim>\<open>write_file\<close> stands before the row \<^verbatim>\<open>read_file\<close> and both have the
  similarity 1 to the query; the search returns \<^verbatim>\<open>write_file\<close> first,
  although \<^verbatim>\<open>read_file\<close> is the smaller name.
\<close>

theorem search_tie_keeps_table_order:
  "searchTools cos_sim files_db [1, 0] (Some 5) =
     Inr [JObj [(''name'', JStr ''write_file''),
                (''description'', JStr ''Write content to a file on the local filesystem''),
                (''server'', JStr ''filesystem''),
                (''category'', JStr ''write''),
                (''similarity'', JNum (Finite 1))],
          JObj [(''name'', JStr ''read_file''),
                (''description'', JStr ''Read contents from a file on the local filesystem''),
                (''server'', JStr ''filesystem''),
                (''category'', JStr ''read''),
                (''similarity'', JNum (Finite 1))]]
   \<and> ''read_file'' < ''write_file''"
  by (simp add: files_db_rows run_search write_file_def read_file_def)

text \<open>
  C2, amended. Take any similarity function, query and limit \<open>N > 0\<close>, and a
  table in which every row has an embedding (none is \<^verbatim>\<open>NULL\<close>) whose
  similarity to the query is not \<^verbatim>\<open>NaN\<close>. Let \<open>results\<close> be the array that
  \<^verbatim>\<open>tools.map\<close> builds: one entry for each row, in the order of the table,
  under the name of the row and with the similarity of the query to the
  embedding of the row. Then the search returns the first \<open>N\<close> entries (all of
  them, if there are fewer) of the list \<open>ranked\<close>, which is the rearrangement
  of \<open>results\<close> in non-increasing order of similarity that keeps entries of
  equal similarity in the order of the table. So the search returns at most
  \<open>N\<close> entries, in non-increasing order of similarity, with ties in the order
  of the table and not of the names. Nothing is stated for a table in which a
  similarity is \<^verbatim>\<open>NaN\<close>.
\<close>

theorem search_ranked:
  assumes "list_all (\<lambda>r. case embedding r of None \<Rightarrow> False | Some e \<Rightarrow> cs q e \<noteq> NaN)
             (tools db)"
    and "0 < N"
  shows "\<exists>results ranked rs.
           map_throw (tool_result cs q) (tools db) = Inr results
           \<and> list_all2 (\<lambda>r obj. get_property ''name'' obj = JStr (name r)
                          \<and> map_option (cs q) (embedding r) = Some (similarity obj))
                 (tools db) results
           \<and> mset ranked = mset results
           \<and> sorted_wrt (\<lambda>a b. js_le (similarity b) (similarity a)) ranked
           \<and> (\<forall>s. filter (\<lambda>r. similarity r = s) ranked = filter (\<lambda>r. similarity r = s) results)
           \<and> searchTools cs db q (Some N) = Inr rs
           \<and> rs = take (nat N) ranked
           \<and> length rs \<le> nat N
           \<and> sorted_wrt (\<lambda>a b. js_le (similarity b) (similarity a)) rs"
proof -
  from assms(1) have "list_all (\<lambda>r. embedding r \<noteq> None) (tools db)"
    by (auto simp: list_all_iff split: option.splits)
  then obtain results where r: "map_throw (tool_result cs q) (tools db) = Inr results"
    using map_throw_tool_result_total by blast
  have numbers: "\<forall>obj\<in>set results. similarity obj \<noteq> NaN"
    using r assms(1) by (rule results_not_NaN)
  let ?ranked = "js_sort compare_similarity results"
  let ?rs = "take (nat N) ?ranked"
  have "slice 0 N ?ranked = ?rs"
    using assms(2) by (simp add: slice_from_start min_def)
  then have run: "searchTools cs db q (Some N) = Inr ?rs"
    using r by (simp add: searchTools_def)
  have desc: "sorted_wrt (\<lambda>a b. js_le (similarity b) (similarity a)) ?ranked"
    using numbers by (rule sorted_js_sort)
  then have desc_rs: "sorted_wrt (\<lambda>a b. js_le (similarity b) (similarity a)) ?rs"
    by (rule sorted_wrt_take)
  have stable: "\<forall>s. filter (\<lambda>r. similarity r = s) ?ranked = filter (\<lambda>r. similarity r = s) results"
    using stable_js_sort [OF numbers] by blast
  have len: "length ?rs \<le> nat N"
    by simp
  show ?thesis
    using r map_throw_rows [OF r] mset_js_sort [where c = compare_similarity and xs = results]
      desc stable run len desc_rs
    by blast
qed

theorem search_ranked_witness:
  "list_all (\<lambda>r. case embedding r of None \<Rightarrow> False | Some e \<Rightarrow> cos_sim [1, 0] e \<noteq> NaN)
     (tools ranked_db)
   \<and> (0 :: int) < 2
   \<and> map (\<lambda>r. (name r, map_option (cos_sim [1, 0]) (embedding r))) (tools ranked_db) =
       [(''list_issues'', Some (Finite 0)), (''write_file'', Some (Finite 1)),
        (''read_file'', Some (Finite 1))]
   \<and> (\<exists>rs. searchTools cos_sim ranked_db [1, 0] (Some 2) = Inr rs
         \<and> map (\<lambda>obj. (get_property ''name'' obj, similarity obj)) rs =
             [(JStr ''write_file'', Finite 1), (JStr ''read_file'', Finite 1)]
         \<and> length rs \<le> nat 2
         \<and> sorted_wrt (\<lambda>a b. js_le (similarity b) (similarity a)) rs)"
proof -
  have h: "list_all (\<lambda>r. case embedding r of None \<Rightarrow> False | Some e \<Rightarrow> cos_sim [1, 0] e \<noteq> NaN)
             (tools ranked_db)"
    by (simp add: ranked_db_rows list_issues_def write_file_def read_file_def
        cos_sim_def dot_def magnitude_def)
  have p: "(0 :: int) < 2"
    by simp
  have rows: "map (\<lambda>r. (name r, map_option (cos_sim [1, 0]) (embedding r))) (tools ranked_db) =
       [(''list_issues'', Some (Finite 0)), (''write_file'', Some (Finite 1)),
        (''read_file'', Some (Finite 1))]"
    by (simp add: ranked_db_rows list_issues_def write_file_def read_file_def
        cos_sim_def dot_def magnitude_def)
  from search_ranked [where cs = cos_sim and q = "[1, 0]" and db = ranked_db and N = 2] h p
  obtain rs where
    run: "searchTools cos_sim ranked_db [1, 0] (Some 2) = Inr rs"
    and len: "length rs \<le> nat 2"
    and desc: "sorted_wrt (\<lambda>a b. js_le (similarity b) (similarity a)) rs"
    by blast
  from run have "map (\<lambda>obj. (get_property ''name'' obj, similarity obj)) rs =
             [(JStr ''write_file'', Finite 1), (JStr ''read_file'', Finite 1)]"
    by (auto simp: ranked_db_rows run_search list_issues_def write_file_def read_file_def)
  with run len desc have "\<exists>rs. searchTools cos_sim ranked_db [1, 0] (Some 2) = Inr rs
         \<and> map (\<lambda>obj. (get_property ''name'' obj, similarity obj)) rs =
             [(JStr ''write_file'', Finite 1), (JStr ''read_file'', Finite 1)]
         \<and> length rs \<le> nat 2
         \<and> sorted_wrt (\<lambda>a b. js_le (similarity b) (similarity a)) rs"
    by (intro exI [of _ rs] conjI)
  with h p rows show ?thesis
    by (intro conjI)
qed

subsection \<open>Embeddings of another length\<close>

text \<open>
  C4, as the specification states it, fails. The only row of \<open>issues_db\<close> has
  an embedding of length 3; a search with a query of length 2 returns it.
\<close>

theorem mismatched_row_returned:
  "map embedding (tools issues_db) = [Some [0, 1, 0]]
   \<and> searchTools cos_sim issues_db [1, 0] None =
        Inr [JObj [(''name'', JStr ''list_issues''),
                   (''description'', JStr ''List issues in a GitHub repository''),
                   (''server'', JStr ''github''),
                   (''category'', JStr ''read''),
                   (''similarity'', JNum (Finite 0))]]"
  by (simp add: issues_db_rows run_search list_issues_def)

text \<open>
  C4, amended. No row is left out for the length of its embedding, and no
  length makes the search fail: for every similarity function the search
  returns a list exactly when no stored embedding is \<^verbatim>\<open>NULL\<close>, whatever the
  lengths of the stored vectors and of the query; and when the limit is at
  least the number of rows, the returned list is a rearrangement of the array
  \<open>results\<close> that has one entry for every row of the table, under the name of
  the row and with whatever the similarity function gives for the query and
  the embedding of the row, \<^verbatim>\<open>NaN\<close> included. Where in the list the entry of
  a row with an embedding of another length stands is not stated.
\<close>

theorem search_keeps_every_row:
  "((\<exists>rs. searchTools cs db q l = Inr rs) \<longleftrightarrow>
      list_all (\<lambda>r. embedding r \<noteq> None) (tools db))
   \<and> (\<forall>rs. searchTools cs db q (Some n) = Inr rs \<and> int (length (tools db)) \<le> n \<longrightarrow>
          (\<exists>results.
             list_all2 (\<lambda>r obj. get_property ''name'' obj = JStr (name r)
                          \<and> map_option (cs q) (embedding r) = Some (similarity obj))
               (tools db) results
             \<and> mset rs = mset results)
          \<and> mset (map (get_property ''name'') rs) = mset (map (\<lambda>r. JStr (name r)) (tools db)))"
proof (intro conjI allI impI)
  show "(\<exists>rs. searchTools cs db q l = Inr rs) \<longleftrightarrow>
          list_all (\<lambda>r. embedding r \<noteq> None) (tools db)"
  proof
    assume "\<exists>rs. searchTools cs db q l = Inr rs"
    then have "\<exists>results. map_throw (tool_result cs q) (tools db) = Inr results"
      by (auto simp: searchTools_def split: sum.splits)
    then show "list_all (\<lambda>r. embedding r \<noteq> None) (tools db)"
      using map_throw_succeeds [of "tool_result cs q" "tools db"] tool_result_succeeds [of cs q]
      by (simp add: list_all_iff)
  next
    assume "list_all (\<lambda>r. embedding r \<noteq> None) (tools db)"
    then obtain results where "map_throw (tool_result cs q) (tools db) = Inr results"
      using map_throw_tool_result_total by blast
    then show "\<exists>rs. searchTools cs db q l = Inr rs"
      by (simp add: searchTools_def)
  qed
next
  fix rs
  assume a: "searchTools cs db q (Some n) = Inr rs \<and> int (length (tools db)) \<le> n"
  then obtain results where r: "map_throw (tool_result cs q) (tools db) = Inr results"
    and rs: "rs = slice 0 n (js_sort compare_similarity results)"
    by (auto simp: searchTools_def split: sum.splits)
  have "length (js_sort compare_similarity results) = length (tools db)"
    using length_map_throw [OF r] by (simp add: length_js_sort)
  with a have "rs = js_sort compare_similarity results"
    unfolding rs by (simp add: slice_from_start)
  then have m: "mset rs = mset results"
    by (simp add: mset_js_sort)
  with map_throw_rows [OF r] show "\<exists>results.
             list_all2 (\<lambda>r obj. get_property ''name'' obj = JStr (name r)
                          \<and> map_option (cs q) (embedding r) = Some (similarity obj))
               (tools db) results
             \<and> mset rs = mset results"
    by blast
  from m have "mset (map (get_property ''name'') rs) = mset (map (get_property ''name'') results)"
    by (metis mset_map)
  then show "mset (map (get_property ''name'') rs) = mset (map (\<lambda>r. JStr (name r)) (tools db))"
    by (simp add: map_throw_names [OF r])
qed

theorem search_keeps_every_row_witness:
  "list_all (\<lambda>r. embedding r \<noteq> None) (tools issues_db)
   \<and> (\<exists>rs. searchTools cos_sim issues_db [1, 0] None = Inr rs)
   \<and> int (length (tools issues_db)) \<le> 5
   \<and> (\<exists>rs. searchTools cos_sim issues_db [1, 0] (Some 5) = Inr rs
         \<and> mset (map (get_property ''name'') rs) = {#JStr ''list_issues''#})"
proof -
  have h: "list_all (\<lambda>r. embedding r \<noteq> None) (tools issues_db)"
    by (simp add: issues_db_rows list_issues_def)
  have len: "int (length (tools issues_db)) \<le> 5"
    by (simp add: issues_db_rows)
  have names: "mset (map (\<lambda>r. JStr (name r)) (tools issues_db)) = {#JStr ''list_issues''#}"
    by (simp add: issues_db_rows list_issues_def)
  have a: "\<exists>rs. searchTools cos_sim issues_db [1, 0] None = Inr rs"
    and b: "\<exists>rs. searchTools cos_sim issues_db [1, 0] (Some 5) = Inr rs"
    using search_keeps_every_row [of cos_sim issues_db "[1, 0]" None 5]
      search_keeps_every_row [of cos_sim issues_db "[1, 0]" "Some 5" 5] h by blast+
  from b obtain rs where rs: "searchTools cos_sim issues_db [1, 0] (Some 5) = Inr rs"
    by blast
  then have "mset (map (get_property ''name'') rs) = {#JStr ''list_issues''#}"
    using search_keeps_every_row [of cos_sim issues_db "[1, 0]" None 5] len names by auto
  with rs have c: "\<exists>rs. searchTools cos_sim issues_db [1, 0] (Some 5) = Inr rs
         \<and> mset (map (get_property ''name'') rs) = {#JStr ''list_issues''#}"
    by (intro exI [of _ rs] conjI)
  from h a len c show ?thesis
    by (intro conjI)
qed

subsection \<open>The limit of a search\<close>

text \<open>
  C3, as the specification states it, fails in its second half. A search with
  the limit 0 is not rejected: it is answered with an empty list of tools.
\<close>

theorem limit_zero_not_rejected:
  "POST_search constant_embedding cos_sim files_db \<lparr>query = Some ''read a file'', limit = Some 0\<rparr>
     = JObj [(''tools'', JArr [])]"
  by (simp add: POST_search_def constant_embedding_def files_db_rows run_search
      write_file_def read_file_def)

text \<open>
  C3, amended. A search request without a limit is answered as the same
  request with the limit 5, and \<^verbatim>\<open>searchTools\<close> without a limit is
  \<^verbatim>\<open>searchTools\<close> with the limit 5. A limit \<open>l \<le> 0\<close> is not rejected: when
  the query is not empty, its embedding is computed and no stored embedding is
  \<^verbatim>\<open>NULL\<close>, the answer is a list of tools, which is empty for the limit 0.
\<close>

theorem search_limit_default:
  "POST_search ge cs db \<lparr>query = qo, limit = None\<rparr> = POST_search ge cs db \<lparr>query = qo, limit = Some 5\<rparr>
   \<and> searchTools cs db qe None = searchTools cs db qe (Some 5)
   \<and> (l \<le> 0 \<and> q \<noteq> [] \<and> ge q = Inr qe \<and> list_all (\<lambda>r. embedding r \<noteq> None) (tools db) \<longrightarrow>
        (\<exists>rs. POST_search ge cs db \<lparr>query = Some q, limit = Some l\<rparr> = JObj [(''tools'', JArr rs)]
           \<and> (l = 0 \<longrightarrow> rs = [])))"
proof (intro conjI impI)
  show "POST_search ge cs db \<lparr>query = qo, limit = None\<rparr> = POST_search ge cs db \<lparr>query = qo, limit = Some 5\<rparr>"
    by (simp add: POST_search_def)
  show "searchTools cs db qe None = searchTools cs db qe (Some 5)"
    by (simp add: searchTools_def)
next
  assume a: "l \<le> 0 \<and> q \<noteq> [] \<and> ge q = Inr qe \<and> list_all (\<lambda>r. embedding r \<noteq> None) (tools db)"
  then obtain results where r: "map_throw (tool_result cs qe) (tools db) = Inr results"
    using map_throw_tool_result_total by blast
  let ?rs = "slice 0 l (js_sort compare_similarity results)"
  have "POST_search ge cs db \<lparr>query = Some q, limit = Some l\<rparr> = JObj [(''tools'', JArr ?rs)]"
    using a r by (simp add: POST_search_def searchTools_def)
  moreover have "l = 0 \<longrightarrow> ?rs = []"
    by (simp add: slice_from_start)
  ultimately show "\<exists>rs. POST_search ge cs db \<lparr>query = Some q, limit = Some l\<rparr> = JObj [(''tools'', JArr rs)]
           \<and> (l = 0 \<longrightarrow> rs = [])"
    by blast
qed

theorem search_limit_default_witness:
  "(0 :: int) \<le> 0 \<and> ''read a file'' \<noteq> [] \<and> constant_embedding ''read a file'' = Inr [1, 0]
   \<and> list_all (\<lambda>r. embedding r \<noteq> None) (tools files_db)
   \<and> POST_search constant_embedding cos_sim files_db \<lparr>query = Some ''read a file'', limit = Some 0\<rparr>
       = JObj [(''tools'', JArr [])]"
proof -
  have h: "(0 :: int) \<le> 0 \<and> ''read a file'' \<noteq> [] \<and> constant_embedding ''read a file'' = Inr [1, 0]
   \<and> list_all (\<lambda>r. embedding r \<noteq> None) (tools files_db)"
    by (simp add: constant_embedding_def files_db_rows write_file_def read_file_def)
  from search_limit_default [of constant_embedding cos_sim files_db None "[1, 0]" 0 "''read a file''"] h
  show ?thesis
    by auto
qed

subsection \<open>The fields that are disclosed\<close>

text \<open>
  C6. For every table, every entry of the listing \<^verbatim>\<open>GET /tools\<close> has exactly
  the fields \<^verbatim>\<open>name\<close>, \<^verbatim>\<open>description\<close>, \<^verbatim>\<open>server\<close> (the identifier of the
  backend) and \<^verbatim>\<open>category\<close>, and every entry of the tools of a search
  response has exactly these and \<^verbatim>\<open>similarity\<close>; so none has a field
  \<^verbatim>\<open>inputSchema\<close>, \<^verbatim>\<open>input_schema\<close> or \<^verbatim>\<open>embedding\<close>. A search response
  has the one field \<^verbatim>\<open>tools\<close> or the one field \<^verbatim>\<open>error\<close>.
\<close>

theorem disclosed_fields:
  "(\<exists>ts. GET_tools rq db = JObj [(''tools'', JArr ts)]
        \<and> (\<forall>t\<in>set ts. keys t = [''name'', ''description'', ''server'', ''category'']))
   \<and> (\<forall>rs. POST_search ge cs db body = JObj [(''tools'', JArr rs)] \<longrightarrow>
        (\<forall>t\<in>set rs. keys t = [''name'', ''description'', ''server'', ''category'', ''similarity'']))
   \<and> (keys (POST_search ge cs db body) = [''tools''] \<or> keys (POST_search ge cs db body) = [''error''])"
proof (intro conjI allI impI ballI)
  show "\<exists>ts. GET_tools rq db = JObj [(''tools'', JArr ts)]
        \<and> (\<forall>t\<in>set ts. keys t = [''name'', ''description'', ''server'', ''category''])"
    by (auto simp: GET_tools_def tool_metadata_def)
next
  fix rs t
  assume resp: "POST_search ge cs db body = JObj [(''tools'', JArr rs)]" and t: "t \<in> set rs"
  from resp obtain qe lmt where s: "searchTools cs db qe lmt = Inr rs"
    by (auto simp: POST_search_def Let_def split: option.splits if_splits sum.splits)
  then obtain results where r: "map_throw (tool_result cs qe) (tools db) = Inr results"
    and rs: "rs = slice 0 (case lmt of None \<Rightarrow> 5 | Some l \<Rightarrow> l) (js_sort compare_similarity results)"
    by (auto simp: searchTools_def split: sum.splits)
  have "set rs \<subseteq> set results"
    using set_slice [of _ "js_sort compare_similarity results"] mset_js_sort [where c = compare_similarity and xs = results]
    unfolding rs by (metis set_mset_mset)
  with t have "t \<in> set results"
    by blast
  with r show "keys t = [''name'', ''description'', ''server'', ''category'', ''similarity'']"
    by (rule map_throw_keys)
next
  show "keys (POST_search ge cs db body) = [''tools''] \<or> keys (POST_search ge cs db body) = [''error'']"
    by (auto simp: POST_search_def Let_def split: option.splits sum.splits)
qed

theorem disclosed_fields_witness:
  "(\<exists>ts. GET_tools [] files_db = JObj [(''tools'', JArr ts)] \<and> ts \<noteq> []
        \<and> list_all (\<lambda>t. keys t = [''name'', ''description'', ''server'', ''category'']) ts)
   \<and> (\<exists>rs. POST_search constant_embedding cos_sim files_db
               \<lparr>query = Some ''read a file'', limit = Some 1\<rparr> = JObj [(''tools'', JArr rs)]
         \<and> rs \<noteq> []
         \<and> list_all (\<lambda>t. keys t = [''name'', ''description'', ''server'', ''category'', ''similarity'']) rs)"
proof -
  let ?body = "\<lparr>query = Some ''read a file'', limit = Some 1\<rparr>"
  note inst = disclosed_fields [of "[]" files_db constant_embedding cos_sim ?body]
  obtain rs where rs: "POST_search constant_embedding cos_sim files_db ?body = JObj [(''tools'', JArr rs)]"
    and ne: "rs \<noteq> []"
    by (simp add: POST_search_def constant_embedding_def files_db_rows run_search
        write_file_def read_file_def)
  from inst rs have "list_all (\<lambda>t. keys t = [''name'', ''description'', ''server'', ''category'', ''similarity'']) rs"
    by (simp add: list_all_iff)
  with rs ne have search: "\<exists>rs. POST_search constant_embedding cos_sim files_db ?body = JObj [(''tools'', JArr rs)]
         \<and> rs \<noteq> []
         \<and> list_all (\<lambda>t. keys t = [''name'', ''description'', ''server'', ''category'', ''similarity'']) rs"
    by blast
  from inst obtain ts where ts: "GET_tools [] files_db = JObj [(''tools'', JArr ts)]"
    and k: "\<forall>t\<in>set ts. keys t = [''name'', ''description'', ''server'', ''category'']"
    by blast
  from ts have "ts \<noteq> []"
    by (auto simp: GET_tools_def files_db_rows write_file_def read_file_def)
  with ts k have listing: "\<exists>ts. GET_tools [] files_db = JObj [(''tools'', JArr ts)] \<and> ts \<noteq> []
        \<and> list_all (\<lambda>t. keys t = [''name'', ''description'', ''server'', ''category'']) ts"
    by (auto simp: list_all_iff)
  from listing search show ?thesis
    by (rule conjI)
qed

subsection \<open>The listing and its filter\<close>

text \<open>
  C9, as the specification states it, fails. A listing requested with a filter
  on the backend \<^verbatim>\<open>github\<close> returns the tool of the backend
  \<^verbatim>\<open>filesystem\<close> as well.
\<close>

theorem listing_ignores_filter:
  "GET_tools [(''backendId'', ''github'')] mixed_db =
     JObj [(''tools'', JArr
       [JObj [(''name'', JStr ''read_file''),
              (''description'', JStr ''Read contents from a file on the local filesystem''),
              (''server'', JStr ''filesystem''),
              (''category'', JStr ''read'')],
        JObj [(''name'', JStr ''list_issues''),
              (''description'', JStr ''List issues in a GitHub repository''),
              (''server'', JStr ''github''),
              (''category'', JStr ''read'')]])]"
  by (simp add: GET_tools_def mixed_db_rows tool_metadata_def read_file_def list_issues_def)

text \<open>
  C9, amended. The listing takes no filter: whatever the request carries, the
  answer is the answer to the request without a filter, and it holds the
  metadata of every row of the table, each row once, ordered by \<^verbatim>\<open>server\<close>
  and then by \<^verbatim>\<open>name\<close>.
\<close>

theorem listing_returns_all:
  "GET_tools rq db = GET_tools [] db
   \<and> (\<exists>rows. GET_tools rq db = JObj [(''tools'', JArr (map tool_metadata rows))]
         \<and> mset rows = mset (tools db)
         \<and> sorted (map (\<lambda>r. (server r, name r)) rows))"
  by (auto simp: GET_tools_def intro!: exI [of _ "sort_key (\<lambda>r. (server r, name r)) (tools db)"])

subsection \<open>Fetching a schema\<close>

lemma find_filter_other:
  "n \<noteq> m \<Longrightarrow> find (\<lambda>r. name r = n) (filter (\<lambda>x. name x \<noteq> m) rows) = find (\<lambda>r. name r = n) rows"
  by (induction rows) auto

lemma find_filter_same:
  "find (\<lambda>r. name r = m) (filter (\<lambda>x. name x \<noteq> m) rows) = None"
  by (induction rows) auto

lemma find_append_cases:
  "find P (xs @ ys) = (case find P xs of None \<Rightarrow> find P ys | Some x \<Rightarrow> Some x)"
  by (induction xs) auto

lemma select_insert_same:
  "select_by_name (name r) (insert_or_replace r db) = Some (r\<lparr>tool_id := next_id db\<rparr>)"
  by (simp add: select_by_name_def insert_or_replace_def find_append_cases find_filter_same)

lemma select_insert_other:
  "n \<noteq> name r \<Longrightarrow> select_by_name n (insert_or_replace r db) = select_by_name n db"
  by (simp add: select_by_name_def insert_or_replace_def find_append_cases find_filter_other
      split: option.splits)

lemma select_add_tool_other:
  "add_tool em st t db = Inr db' \<Longrightarrow> n \<noteq> tool_name t \<Longrightarrow>
     select_by_name n db' = select_by_name n db"
  by (auto simp: add_tool_def select_insert_other split: sum.splits)

lemma select_populate_other:
  "populate em st ts db = (db', err) \<Longrightarrow> n \<notin> tool_name ` set ts \<Longrightarrow>
     select_by_name n db' = select_by_name n db"
proof (induction ts arbitrary: db)
  case Nil
  then show ?case by simp
next
  case (Cons t ts)
  show ?case
  proof (cases "add_tool em st t db")
    case (Inl e)
    with Cons.prems show ?thesis by simp
  next
    case (Inr db1)
    with Cons.prems have "populate em st ts db1 = (db', err)" and "n \<notin> tool_name ` set ts"
      and "n \<noteq> tool_name t"
      by auto
    then show ?thesis
      using Cons.IH [of db1] select_add_tool_other [OF Inr] by simp
  qed
qed

lemma select_absent:
  "n \<notin> name ` set (tools db) \<Longrightarrow> select_by_name n db = None"
  by (auto simp: select_by_name_def find_None_iff)

lemma select_present:
  "distinct (map name rows) \<Longrightarrow> r \<in> set rows \<Longrightarrow> find (\<lambda>x. name x = name r) rows = Some r"
  by (induction rows) (auto simp: image_iff)

text \<open>
  C7. Let \<^verbatim>\<open>JSON.parse\<close> read back the document \<open>inputSchema t\<close> from the text
  \<^verbatim>\<open>JSON.stringify\<close> writes for it. When \<^verbatim>\<open>populate\<close> has stored the tool
  \<open>t\<close>, then, after any further tools of other names were stored, fetching the
  schema by the name of \<open>t\<close> succeeds, its \<^verbatim>\<open>inputSchema\<close> is the document
  \<open>inputSchema t\<close>, and its \<^verbatim>\<open>input_schema\<close> is the very text that was stored.
  Fetching by a name that no row of the table has is answered with the error
  \<^verbatim>\<open>Tool not found\<close>.
\<close>

theorem schema_round_trip:
  assumes "JSON_parse (JSON_stringify (inputSchema t)) = Inr (inputSchema t)"
    and "add_tool em JSON_stringify t db = Inr db1"
    and "populate em JSON_stringify ts db1 = (db2, err)"
    and "tool_name t \<notin> tool_name ` set ts"
  shows "(\<exists>resp. GET_tool JSON_parse db2 (tool_name t) = Inr resp
            \<and> get_property ''inputSchema'' resp = inputSchema t
            \<and> get_property ''input_schema'' resp = JStr (JSON_stringify (inputSchema t)))
         \<and> (n \<notin> name ` set (tools db') \<longrightarrow>
              GET_tool JSON_parse db' n = Inr (JObj [(''error'', JStr ''Tool not found'')]))"
proof
  from assms(2) obtain vec where
    db1: "db1 = insert_or_replace
                 \<lparr>tool_id = 0, name = tool_name t, description = tool_description t,
                  server = tool_server t, category = Some (tool_category t),
                  input_schema = JSON_stringify (inputSchema t),
                  embedding = Some vec\<rparr> db"
    by (auto simp: add_tool_def split: sum.splits)
  have "select_by_name (tool_name t) db2 = select_by_name (tool_name t) db1"
    using assms(3,4) by (rule select_populate_other)
  also have "\<dots> = Some \<lparr>tool_id = next_id db, name = tool_name t, description = tool_description t,
                  server = tool_server t, category = Some (tool_category t),
                  input_schema = JSON_stringify (inputSchema t),
                  embedding = Some vec\<rparr>"
    unfolding db1 using select_insert_same [of "\<lparr>tool_id = 0, name = tool_name t, description = tool_description t,
                  server = tool_server t, category = Some (tool_category t),
                  input_schema = JSON_stringify (inputSchema t),
                  embedding = Some vec\<rparr>" db] by simp
  finally show "\<exists>resp. GET_tool JSON_parse db2 (tool_name t) = Inr resp
            \<and> get_property ''inputSchema'' resp = inputSchema t
            \<and> get_property ''input_schema'' resp = JStr (JSON_stringify (inputSchema t))"
    using assms(1) by (simp add: GET_tool_def)
next
  show "n \<notin> name ` set (tools db') \<longrightarrow>
              GET_tool JSON_parse db' n = Inr (JObj [(''error'', JStr ''Tool not found'')])"
    by (simp add: GET_tool_def select_absent)
qed

theorem schema_round_trip_witness:
  "parse_literal (stringify_literal (inputSchema take_screenshot)) = Inr (inputSchema take_screenshot)
   \<and> (\<exists>db1 db2.
         add_tool constant_embedding stringify_literal take_screenshot files_db = Inr db1
         \<and> populate constant_embedding stringify_literal
              [take_screenshot\<lparr>tool_name := ''click'', inputSchema := JNull\<rparr>] db1 = (db2, None)
         \<and> (\<exists>resp. GET_tool parse_literal db2 ''take_screenshot'' = Inr resp
               \<and> get_property ''inputSchema'' resp = JObj []
               \<and> get_property ''input_schema'' resp = JStr ''{}''))
   \<and> ''missing'' \<notin> name ` set (tools files_db)
   \<and> GET_tool parse_literal files_db ''missing'' = Inr (JObj [(''error'', JStr ''Tool not found'')])"
proof -
  have rt: "parse_literal (stringify_literal (inputSchema take_screenshot)) = Inr (inputSchema take_screenshot)"
    by (simp add: take_screenshot_def parse_literal_def)
  obtain db1 where a: "add_tool constant_embedding stringify_literal take_screenshot files_db = Inr db1"
    by (simp add: add_tool_def constant_embedding_def)
  obtain db2 where p: "populate constant_embedding stringify_literal
              [take_screenshot\<lparr>tool_name := ''click'', inputSchema := JNull\<rparr>] db1 = (db2, None)"
    by (simp add: add_tool_def constant_embedding_def)
  have other: "tool_name take_screenshot \<notin> tool_name ` set [take_screenshot\<lparr>tool_name := ''click'', inputSchema := JNull\<rparr>]"
    by (simp add: take_screenshot_def)
  have absent: "''missing'' \<notin> name ` set (tools files_db)"
    by (simp add: files_db_rows write_file_def read_file_def)
  from schema_round_trip [where JSON_parse = parse_literal and JSON_stringify = stringify_literal
      and t = take_screenshot and em = constant_embedding and db = files_db and ?db1.0 = db1
      and ts = "[take_screenshot\<lparr>tool_name := ''click'', inputSchema := JNull\<rparr>]"
      and ?db2.0 = db2 and err = None and n = "''missing''" and db' = files_db]
    rt a p other absent
  have "(\<exists>resp. GET_tool parse_literal db2 ''take_screenshot'' = Inr resp
               \<and> get_property ''inputSchema'' resp = JObj []
               \<and> get_property ''input_schema'' resp = JStr ''{}'')"
    and "GET_tool parse_literal files_db ''missing'' = Inr (JObj [(''error'', JStr ''Tool not found'')])"
    by (simp_all add: take_screenshot_def)
  with rt a p absent show ?thesis
    by (intro conjI exI [of _ db1] exI [of _ db2])
qed

text \<open>
  C10. For every row \<open>r\<close> of a table with pairwise distinct names whose stored
  schema text \<^verbatim>\<open>JSON.parse\<close> reads, fetching the schema by the name of \<open>r\<close>
  succeeds with an object of six fields: the four of the metadata, the stored
  text itself under \<^verbatim>\<open>input_schema\<close>, and the parsed document under
  \<^verbatim>\<open>inputSchema\<close>.
\<close>

theorem schema_fetch_raw_column:
  assumes "distinct (map name (tools db))" and "r \<in> set (tools db)"
    and "JSON_parse (input_schema r) = Inr parsed"
  shows "\<exists>resp. GET_tool JSON_parse db (name r) = Inr resp
           \<and> keys resp = [''name'', ''description'', ''server'', ''category'', ''input_schema'', ''inputSchema'']
           \<and> get_property ''input_schema'' resp = JStr (input_schema r)
           \<and> get_property ''inputSchema'' resp = parsed"
  using assms by (simp add: GET_tool_def select_by_name_def select_present)

theorem schema_fetch_raw_column_witness:
  "distinct (map name (tools files_db)) \<and> read_file\<lparr>tool_id := 2\<rparr> \<in> set (tools files_db)
   \<and> parse_literal (input_schema (read_file\<lparr>tool_id := 2\<rparr>)) = Inr (JObj [])
   \<and> (\<exists>resp. GET_tool parse_literal files_db ''read_file'' = Inr resp
         \<and> keys resp = [''name'', ''description'', ''server'', ''category'', ''input_schema'', ''inputSchema'']
         \<and> get_property ''input_schema'' resp = JStr ''{}''
         \<and> get_property ''inputSchema'' resp = JObj [])"
proof -
  have d: "distinct (map name (tools files_db))"
    by (simp add: files_db_rows write_file_def read_file_def)
  have m: "read_file\<lparr>tool_id := 2\<rparr> \<in> set (tools files_db)"
    by (simp add: files_db_rows)
  have p: "parse_literal (input_schema (read_file\<lparr>tool_id := 2\<rparr>)) = Inr (JObj [])"
    by (simp add: read_file_def parse_literal_def)
  from schema_fetch_raw_column [where db = files_db and r = "read_file\<lparr>tool_id := 2\<rparr>"
      and JSON_parse = parse_literal and parsed = "JObj []"] d m p
  show ?thesis
    by (simp add: read_file_def)
qed

subsection \<open>Executing a tool\<close>

text \<open>
  C1, as the specification states it, fails. No row of \<open>files_db\<close> is named
  \<^verbatim>\<open>nonexistent_tool\<close>, and executing that tool is answered with a success
  body.
\<close>

theorem execute_unknown_tool_succeeds:
  "select_by_name ''nonexistent_tool'' files_db = None
   \<and> POST_execute files_db \<lparr>tool = JStr ''nonexistent_tool'', args = JObj []\<rparr> =
       JObj [(''success'', JBool True),
             (''tool'', JStr ''nonexistent_tool''),
             (''args'', JObj []),
             (''message'', JStr ''POC: Tool execution would happen here. In production, this would forward to the actual MCP server.''),
             (''note'', JStr ''To implement: Forward request to MCP server based on tool.server field'')]"
  by (simp add: select_by_name_def files_db_rows write_file_def read_file_def POST_execute_def)

text \<open>
  C1, amended. When the body has a truthy \<^verbatim>\<open>tool\<close> and truthy \<^verbatim>\<open>args\<close>,
  the answer is a success body that repeats both, whether or not the table has
  a tool of that name; otherwise the answer is the error
  \<^verbatim>\<open>Tool and args required\<close>. The answer does not depend on the table, and no
  backend is contacted.
\<close>

theorem execute_is_mock:
  "(truthy (tool body) \<and> truthy (args body) \<longrightarrow>
      get_property ''success'' (POST_execute db body) = JBool True
      \<and> get_property ''tool'' (POST_execute db body) = tool body
      \<and> get_property ''args'' (POST_execute db body) = args body
      \<and> get_property ''error'' (POST_execute db body) = JUndefined)
   \<and> (\<not> (truthy (tool body) \<and> truthy (args body)) \<longrightarrow>
        POST_execute db body = JObj [(''error'', JStr ''Tool and args required'')])
   \<and> POST_execute db body = POST_execute db' body"
  by (simp add: POST_execute_def)

theorem execute_is_mock_witness:
  "truthy (JStr ''read_file'') \<and> truthy (JObj [(''path'', JStr ''/tmp/x'')])
   \<and> get_property ''success''
        (POST_execute empty_db \<lparr>tool = JStr ''read_file'', args = JObj [(''path'', JStr ''/tmp/x'')]\<rparr>)
       = JBool True
   \<and> \<not> (truthy (JStr ''read_file'') \<and> truthy JUndefined)
   \<and> POST_execute files_db \<lparr>tool = JStr ''read_file'', args = JUndefined\<rparr>
       = JObj [(''error'', JStr ''Tool and args required'')]"
proof -
  have a: "truthy (JStr ''read_file'') \<and> truthy (JObj [(''path'', JStr ''/tmp/x'')])"
    and b: "\<not> (truthy (JStr ''read_file'') \<and> truthy JUndefined)"
    by simp_all
  from execute_is_mock [of "\<lparr>tool = JStr ''read_file'', args = JObj [(''path'', JStr ''/tmp/x'')]\<rparr>" empty_db]
    execute_is_mock [of "\<lparr>tool = JStr ''read_file'', args = JUndefined\<rparr>" files_db]
  show ?thesis
    using a b by simp
qed

subsection \<open>Loading the model once\<close>

lemma call_after_load:
  "embedder s = Some m \<Longrightarrow>
     getEmbedder_call c s = s\<lparr>returned := returned s @ [(c, m)]\<rparr>"
  by (simp add: getEmbedder_call_def)

lemma calls_before_load:
  "embedder s = None \<Longrightarrow>
     embedder (run (map Call cs) s) = None
     \<and> pipelines (run (map Call cs) s) = pipelines s + length cs"
  by (induction cs arbitrary: s) (simp_all add: run_def getEmbedder_call_def)

text \<open>
  C5 fails on the code. Two callers call \<^verbatim>\<open>getEmbedder\<close> before the model is
  loaded: each finds the variable unset and calls \<^verbatim>\<open>pipeline\<close>, so the model
  is loaded twice, and the two callers get two different instances.
\<close>

theorem getEmbedder_loads_twice:
  "run [Call 0, Call 1, Settle 0, Settle 1] initial_loader =
     \<lparr>embedder = Some 2, pipelines = 2, awaiting = [], returned = [(0, 1), (1, 2)],
      thrown = []\<rparr>"
  by (simp add: run_def initial_loader_def getEmbedder_call_def getEmbedder_resume_def)

end
